theory Spec2Isabelle
  imports Main "HOL-Library.Char_ord" "HOL-Library.List_Lexorder"
begin

section \<open>JavaScript values and errors\<close>

text \<open>
  Exceptions of the source are values: a \<^verbatim>\<open>throw\<close> is the left injection of a
  result of type \<open>js_error + 'a\<close>.
\<close>

datatype js_error = TypeError | SyntaxError | NotFoundError string | Error string

section \<open>SamplesContainer.tsx: the field classifier\<close>

text \<open>
  The objects pushed by the loop of \<^verbatim>\<open>DisplayOptionsWrapper\<close> are \<^verbatim>\<open>{ name, type }\<close>
  (labels) or \<^verbatim>\<open>{ name }\<close> (scalars, unsupported); a missing \<^verbatim>\<open>type\<close> reads as
  \<^verbatim>\<open>undefined\<close>, here \<open>None\<close>.
\<close>

record entry =
  name :: string
  type :: "string option"

record labelNameGroups =
  labels :: "entry list"
  scalars :: "entry list"
  unsupported :: "entry list"

text \<open>
  \<^verbatim>\<open>VALID_LABEL_TYPES.includes(labelTypes[name])\<close>: the allow-lists are arrays of
  strings (they are imported from \<^verbatim>\<open>../utils/labels\<close> and are parameters here), the
  lookups are objects read by key, where a missing key gives \<^verbatim>\<open>undefined\<close>, which no
  array of strings includes (nor does it include a value that is not a string, so
  \<open>None\<close> stands for every such value).
\<close>

definition array_includes :: "string list \<Rightarrow> string option \<Rightarrow> bool" where
  "array_includes xs v = (case v of None \<Rightarrow> False | Some s \<Rightarrow> s \<in> set xs)"

definition push :: "'a list \<Rightarrow> 'a \<Rightarrow> 'a list" where
  "push xs x = xs @ [x]"

text \<open>The body of \<^verbatim>\<open>for (const name of labelNames)\<close>.\<close>

definition classify_name ::
  "string list \<Rightarrow> string list \<Rightarrow> (string \<rightharpoonup> string) \<Rightarrow> (string \<rightharpoonup> string)
   \<Rightarrow> labelNameGroups \<Rightarrow> string \<Rightarrow> labelNameGroups" where
  "classify_name VALID_LABEL_TYPES VALID_SCALAR_TYPES labelTypes fieldSchema g n =
     (if array_includes VALID_LABEL_TYPES (labelTypes n)
      then g\<lparr>labels := push (labels g) \<lparr>name = n, type = labelTypes n\<rparr>\<rparr>
      else if array_includes VALID_SCALAR_TYPES (fieldSchema n)
      then g\<lparr>scalars := push (scalars g) \<lparr>name = n, type = None\<rparr>\<rparr>
      else g\<lparr>unsupported := push (unsupported g) \<lparr>name = n, type = None\<rparr>\<rparr>)"

fun classify_loop ::
  "string list \<Rightarrow> string list \<Rightarrow> (string \<rightharpoonup> string) \<Rightarrow> (string \<rightharpoonup> string)
   \<Rightarrow> string list \<Rightarrow> labelNameGroups \<Rightarrow> labelNameGroups" where
  "classify_loop VL VS labelTypes fieldSchema [] g = g"
| "classify_loop VL VS labelTypes fieldSchema (n # ns) g =
     classify_loop VL VS labelTypes fieldSchema ns
       (classify_name VL VS labelTypes fieldSchema g n)"

definition classify ::
  "string list \<Rightarrow> string list \<Rightarrow> (string \<rightharpoonup> string) \<Rightarrow> (string \<rightharpoonup> string)
   \<Rightarrow> string list \<Rightarrow> labelNameGroups" where
  "classify VL VS labelTypes fieldSchema labelNames =
     classify_loop VL VS labelTypes fieldSchema labelNames
       \<lparr>labels = [], scalars = [], unsupported = []\<rparr>"

definition names_of :: "entry list \<Rightarrow> string set" where
  "names_of es = set (map name es)"

section \<open>SamplesContainer.tsx: display options\<close>

text \<open>
  A display option is the entry with the count read from \<^verbatim>\<open>counts[name]\<close>
  (\<^verbatim>\<open>undefined\<close> for a missing key) and \<^verbatim>\<open>Boolean(selected[name])\<close>.
\<close>

record display_option = entry +
  count :: "int option"
  selected :: bool

text \<open>
  \<^verbatim>\<open>[...values].sort()\<close> is called without a comparison function. ECMAScript's
  default comparison then orders the elements by their \<^verbatim>\<open>ToString\<close> images, and the
  sort is stable. Every element of \<^verbatim>\<open>values\<close> is a plain object, at each of the four
  call sites, and \<^verbatim>\<open>ToString\<close> of a plain object is the fixed string below.
\<close>

definition ToString :: "entry \<Rightarrow> string" where
  "ToString e = ''[object Object]''"

definition sort_default :: "entry list \<Rightarrow> entry list" where
  "sort_default values = sort_key ToString values"

definition Boolean :: "bool option \<Rightarrow> bool" where
  "Boolean v = (case v of None \<Rightarrow> False | Some b \<Rightarrow> b)"

definition getDisplayOptions ::
  "entry list \<Rightarrow> (string \<rightharpoonup> int) \<Rightarrow> (string \<rightharpoonup> bool) \<Rightarrow> display_option list" where
  "getDisplayOptions values counts sel =
     map (\<lambda>e. \<lparr>name = name e, type = type e,
                count = counts (name e), selected = Boolean (sel (name e))\<rparr>)
       (sort_default values)"

section \<open>SamplesContainer.tsx: the sidebar height\<close>

text \<open>
  The numbers of the source are JavaScript numbers. The model is polymorphic in the number
  type \<open>'n\<close> and asks of it only a subtraction (class \<open>minus\<close>, which has no axioms), so
  it reads the subtraction of the source whatever its rounding.

  \<^verbatim>\<open>useState("unset")\<close>: the stored height is the string \<^verbatim>\<open>"unset"\<close> until the first
  measurement.
\<close>

datatype 'n sidebar_height = Unset | Height 'n

record 'n dom_rect =
  rect_top :: 'n

record 'n element =
  boundingClientRect :: "'n dom_rect"

record 'n window =
  innerHeight :: 'n

text \<open>
  \<^verbatim>\<open>sidebarRef.current\<close> is \<open>None\<close> while no element is attached. Calling a method on
  it then raises a \<^verbatim>\<open>TypeError\<close>.
\<close>

definition getBoundingClientRect :: "'n element option \<Rightarrow> js_error + 'n dom_rect" where
  "getBoundingClientRect cur =
     (case cur of None \<Rightarrow> Inl TypeError | Some el \<Rightarrow> Inr (boundingClientRect el))"

definition updateSidebarHeight ::
  "('n::minus) window \<Rightarrow> 'n element option \<Rightarrow> 'n sidebar_height
   \<Rightarrow> js_error + 'n sidebar_height" where
  "updateSidebarHeight w cur sidebarHeight =
     (if cur \<noteq> None
      then (case getBoundingClientRect cur of
              Inl e \<Rightarrow> Inl e
            | Inr r \<Rightarrow> Inr (Height (innerHeight w - rect_top r)))
      else Inr sidebarHeight)"

section \<open>Dataset.tsx: the route component\<close>

text \<open>
  The query response is an object or \<^verbatim>\<open>null\<close>. An object has an identity (its
  address) besides its fields: React compares the dependencies of an effect by
  \<^verbatim>\<open>Object.is\<close>, which on objects is identity.
\<close>

datatype 'd js_object = Obj (addr: nat) (obj_fields: 'd)

definition Object_is :: "'d js_object \<Rightarrow> 'd js_object \<Rightarrow> bool" where
  "Object_is a b = (addr a = addr b)"

text \<open>
  The state React keeps for the one \<^verbatim>\<open>useEffect\<close> of the component: the dependency
  of the last committed render, \<open>None\<close> before the first.
\<close>

record 'd hook_state =
  effect_deps :: "'d js_object option"

text \<open>
  \<^verbatim>\<open>useEffect(f, [dataset])\<close>: the effect runs after the first render and after each
  render whose dependency is not the previous one.
\<close>

definition useEffect :: "'d js_object \<Rightarrow> 'd hook_state \<Rightarrow> bool \<times> 'd hook_state" where
  "useEffect dep hs =
     ((case effect_deps hs of None \<Rightarrow> True | Some old \<Rightarrow> \<not> Object_is old dep),
      hs\<lparr>effect_deps := Some dep\<rparr>)"

datatype rendered = Null | DatasetComponent

text \<open>
  One render pass of \<^verbatim>\<open>Dataset\<close>: the state updates it publishes (the arguments of
  \<^verbatim>\<open>update\<close>), the hook state, and the outcome, which is the thrown error or the
  rendered element. \<^verbatim>\<open>transformDataset\<close> and \<^verbatim>\<open>window.location.pathname\<close> are
  parameters; \<^verbatim>\<open>!name\<close> holds of \<^verbatim>\<open>undefined\<close>, \<^verbatim>\<open>null\<close> and the empty string.
\<close>

record ('d, 't) render_pass =
  published :: "'t list"
  hooks :: "'d hook_state"
  outcome :: "js_error + rendered"

definition falsy :: "string option \<Rightarrow> bool" where
  "falsy v = (case v of None \<Rightarrow> True | Some s \<Rightarrow> s = [])"

definition Dataset ::
  "('d \<Rightarrow> 't) \<Rightarrow> string \<Rightarrow> 'd js_object option \<Rightarrow> string option \<Rightarrow> 'd hook_state
   \<Rightarrow> ('d, 't) render_pass" where
  "Dataset transformDataset pathname dataset nm hs =
     (case dataset of
        None \<Rightarrow> \<lparr>published = [], hooks = hs, outcome = Inl (NotFoundError pathname)\<rparr>
      | Some d \<Rightarrow>
          (let (fire, hs') = useEffect d hs
           in \<lparr>published = (if fire then [transformDataset (obj_fields d)] else []),
               hooks = hs',
               outcome = Inr (if falsy nm then Null else DatasetComponent)\<rparr>))"

text \<open>
  Successive render passes of the mounted component, each with the query response and
  the dataset name of that pass. A thrown error ends the run: the error boundary
  unmounts the component.
\<close>

fun render_passes ::
  "('d \<Rightarrow> 't) \<Rightarrow> string \<Rightarrow> ('d js_object option \<times> string option) list \<Rightarrow> 'd hook_state
   \<Rightarrow> 't list \<times> (js_error + 'd hook_state)" where
  "render_passes T p [] hs = ([], Inr hs)"
| "render_passes T p ((d, nm) # rest) hs =
     (let r = Dataset T p d nm hs
      in case outcome r of
           Inl e \<Rightarrow> (published r, Inl e)
         | Inr v \<Rightarrow> (let (us, res) = render_passes T p rest (hooks r)
                     in (published r @ us, res)))"

section \<open>Teams: the lead form\<close>

record form_state =
  email :: string
  firstname :: string
  lastname :: string
  company :: string
  role :: string
  discover :: string

record teams_atom =
  submitted :: bool

text \<open>
  What the component reads and writes: its two \<^verbatim>\<open>useState\<close> cells and the two shared
  atoms \<^verbatim>\<open>atoms.teams\<close> and \<^verbatim>\<open>atoms.appTeamsIsOpen\<close>.
\<close>

record teams_view =
  formState :: form_state
  submitText :: string
  teams :: teams_atom
  appTeamsIsOpen :: bool

text \<open>
  The \<^verbatim>\<open>disabled\<close> attribute of the submit button. The fields are strings (the initial
  state and every \<^verbatim>\<open>e.target.value\<close> are), and a length is truthy when it is not 0.
\<close>

definition submit_disabled :: "teams_view \<Rightarrow> bool" where
  "submit_disabled v =
     (\<not> (length (email (formState v)) \<noteq> 0 \<and>
         length (firstname (formState v)) \<noteq> 0 \<and>
         length (lastname (formState v)) \<noteq> 0)
      \<or> submitted (teams v))"

text \<open>What \<^verbatim>\<open>submit\<close> sends out and schedules, in order.\<close>

record request_body =
  submittedAt :: nat
  body_fields :: "(string \<times> string) list"
  pageName :: string

datatype timer_action = SetOpen bool

datatype effect =
    Fetch string string request_body
  | FetchFunction string string
  | SetTimeout timer_action nat

definition postUrl :: string where
  "postUrl =
     ''https://api.hsforms.com/submissions/v3/integration/submit/'' @ ''4972700'' @ ''/'' @
     ''87aa5367-a8f1-4ed4-9e23-1fdf8448d807''"

text \<open>
  How the request of \<^verbatim>\<open>fetch\<close> ends: the promise rejects (a network exception), or it
  resolves with a response, of which the code reads the status and then the body as
  JSON (\<open>json_ok\<close>: the body parses).
\<close>

datatype fetch_result = Rejected | Resolved (status: nat) (json_ok: bool)

text \<open>
  The first \<^verbatim>\<open>.then\<close>: \<^verbatim>\<open>throw new Error("Failed submission")\<close> unless the status is
  200, else \<^verbatim>\<open>response.json()\<close>. A rejection of \<^verbatim>\<open>fetch\<close> skips it.
\<close>

definition first_then :: "fetch_result \<Rightarrow> js_error + unit" where
  "first_then r =
     (case r of
        Rejected \<Rightarrow> Inl TypeError
      | Resolved st ok \<Rightarrow>
          (if st \<noteq> 200 then Inl (Error ''Failed submission'')
           else if ok then Inr () else Inl SyntaxError))"

text \<open>The synchronous part of \<^verbatim>\<open>submit\<close>, with \<open>now\<close> the value of \<^verbatim>\<open>Date.now()\<close>.\<close>

definition submit_begin :: "nat \<Rightarrow> teams_view \<Rightarrow> teams_view \<times> effect list" where
  "submit_begin now v =
     (v\<lparr>submitText := ''Submitting...''\<rparr>,
      [Fetch postUrl ''post''
         \<lparr>submittedAt = now,
          body_fields =
            [(''firstname'', firstname (formState v)),
             (''lastname'', lastname (formState v)),
             (''email'', email (formState v)),
             (''company'', company (formState v)),
             (''role'', role (formState v)),
             (''app_how_did_you_hear_about_us'', discover (formState v))],
          pageName = ''FiftyOne App''\<rparr>])"

text \<open>The second \<^verbatim>\<open>.then\<close> and the \<^verbatim>\<open>.catch\<close>, run when the request has ended.\<close>

definition submit_settle :: "fetch_result \<Rightarrow> teams_view \<Rightarrow> teams_view \<times> effect list" where
  "submit_settle r v =
     (case first_then r of
        Inr u \<Rightarrow>
          (v\<lparr>submitText := ''Submitted. Thank you!'',
             teams := (teams v)\<lparr>submitted := True\<rparr>\<rparr>,
           [FetchFunction ''POST'' ''/teams?submitted=true'',
            SetTimeout (SetOpen False) 2000])
      | Inl e \<Rightarrow> (v\<lparr>submitText := ''Something went wrong''\<rparr>, []))"

definition submit :: "nat \<Rightarrow> fetch_result \<Rightarrow> teams_view \<Rightarrow> teams_view \<times> effect list" where
  "submit now r v =
     (let (v1, e1) = submit_begin now v;
          (v2, e2) = submit_settle r v1
      in (v2, e1 @ e2))"

text \<open>The timer callback \<^verbatim>\<open>() => setOpen(false)\<close>.\<close>

fun run_timer :: "timer_action \<Rightarrow> teams_view \<Rightarrow> teams_view" where
  "run_timer (SetOpen b) v = v\<lparr>appTeamsIsOpen := b\<rparr>"

text \<open>The requests sent to the marketing endpoint among a list of effects.\<close>

fun is_marketing_post :: "effect \<Rightarrow> bool" where
  "is_marketing_post (Fetch url m b) = (url = postUrl)"
| "is_marketing_post (FetchFunction m p) = False"
| "is_marketing_post (SetTimeout a ms) = False"

fun is_success_action :: "effect \<Rightarrow> bool" where
  "is_success_action (Fetch url m b) = False"
| "is_success_action (FetchFunction m p) = True"
| "is_success_action (SetTimeout a ms) = True"

text \<open>The request ended in the \<^verbatim>\<open>.catch\<close> branch.\<close>

definition failed :: "fetch_result \<Rightarrow> bool" where
  "failed r = (case first_then r of Inl e \<Rightarrow> True | Inr u \<Rightarrow> False)"

section \<open>Properties of the field classifier\<close>

text \<open>
  Each group of the result is the group it started as, followed by the entries of the
  names that the loop sends there, in the order of \<^verbatim>\<open>labelNames\<close>.
\<close>

lemma classify_name_labels:
  "labels (classify_name VL VS lt fs g n) =
     labels g @ (if array_includes VL (lt n) then [\<lparr>name = n, type = lt n\<rparr>] else [])"
  by (simp add: classify_name_def push_def)

lemma classify_name_scalars:
  "scalars (classify_name VL VS lt fs g n) =
     scalars g @ (if \<not> array_includes VL (lt n) \<and> array_includes VS (fs n)
                  then [\<lparr>name = n, type = None\<rparr>] else [])"
  by (simp add: classify_name_def push_def)

lemma classify_name_unsupported:
  "unsupported (classify_name VL VS lt fs g n) =
     unsupported g @ (if \<not> array_includes VL (lt n) \<and> \<not> array_includes VS (fs n)
                  then [\<lparr>name = n, type = None\<rparr>] else [])"
  by (simp add: classify_name_def push_def)

lemma classify_loop_labels:
  "labels (classify_loop VL VS lt fs ns g) =
     labels g @ map (\<lambda>n. \<lparr>name = n, type = lt n\<rparr>) (filter (\<lambda>n. array_includes VL (lt n)) ns)"
  by (induction ns arbitrary: g) (simp_all add: classify_name_labels)

lemma classify_loop_scalars:
  "scalars (classify_loop VL VS lt fs ns g) =
     scalars g @ map (\<lambda>n. \<lparr>name = n, type = None\<rparr>)
       (filter (\<lambda>n. \<not> array_includes VL (lt n) \<and> array_includes VS (fs n)) ns)"
  by (induction ns arbitrary: g) (simp_all add: classify_name_scalars)

lemma classify_loop_unsupported:
  "unsupported (classify_loop VL VS lt fs ns g) =
     unsupported g @ map (\<lambda>n. \<lparr>name = n, type = None\<rparr>)
       (filter (\<lambda>n. \<not> array_includes VL (lt n) \<and> \<not> array_includes VS (fs n)) ns)"
  by (induction ns arbitrary: g) (simp_all add: classify_name_unsupported)

lemma names_of_labels:
  "names_of (labels (classify VL VS lt fs ns)) = {n \<in> set ns. array_includes VL (lt n)}"
  by (auto simp: names_of_def classify_def classify_loop_labels)

lemma names_of_scalars:
  "names_of (scalars (classify VL VS lt fs ns)) =
     {n \<in> set ns. \<not> array_includes VL (lt n) \<and> array_includes VS (fs n)}"
  by (auto simp: names_of_def classify_def classify_loop_scalars)

lemma names_of_unsupported:
  "names_of (unsupported (classify VL VS lt fs ns)) =
     {n \<in> set ns. \<not> array_includes VL (lt n) \<and> \<not> array_includes VS (fs n)}"
  by (auto simp: names_of_def classify_def classify_loop_unsupported)

lemma filter_three_lengths:
  "length (filter P ns) + length (filter (\<lambda>n. \<not> P n \<and> Q n) ns) +
     length (filter (\<lambda>n. \<not> P n \<and> \<not> Q n) ns) = length ns"
  by (induction ns) auto

lemma classify_lengths:
  "length (labels (classify VL VS lt fs ns)) + length (scalars (classify VL VS lt fs ns)) +
     length (unsupported (classify VL VS lt fs ns)) = length ns"
  by (simp add: classify_def classify_loop_labels classify_loop_scalars
      classify_loop_unsupported filter_three_lengths)

text \<open>
  Claim C1. For every list of field names, with any two allow-lists and any two lookups,
  the names of the three groups \<open>labels\<close>, \<open>scalars\<close> and \<open>unsupported\<close> are pairwise
  disjoint and together are exactly the input names; the three groups hold as many
  entries as there are input names, so each occurrence of a name is placed once, in
  one group.
\<close>

theorem classify_partition:
  "(let g = classify VL VS labelTypes fieldSchema labelNames in
      names_of (labels g) \<inter> names_of (scalars g) = {} \<and>
      names_of (labels g) \<inter> names_of (unsupported g) = {} \<and>
      names_of (scalars g) \<inter> names_of (unsupported g) = {} \<and>
      names_of (labels g) \<union> names_of (scalars g) \<union> names_of (unsupported g) = set labelNames \<and>
      length (labels g) + length (scalars g) + length (unsupported g) = length labelNames)"
  unfolding Let_def names_of_labels names_of_scalars names_of_unsupported
  using classify_lengths [of VL VS labelTypes fieldSchema labelNames] by auto

text \<open>
  Claim C2. A field name of the input is classified into \<open>labels\<close> when its declared
  label type is in the label allow-list; otherwise into \<open>scalars\<close> when its declared
  schema type is in the scalar allow-list; otherwise into \<open>unsupported\<close>, and into no
  other group in each case. A name that neither lookup knows is \<open>unsupported\<close>.
\<close>

theorem classify_rule:
  assumes "n \<in> set labelNames"
  shows "(let g = classify VL VS labelTypes fieldSchema labelNames in
      (if array_includes VL (labelTypes n)
       then n \<in> names_of (labels g) \<and> n \<notin> names_of (scalars g) \<and> n \<notin> names_of (unsupported g)
       else if array_includes VS (fieldSchema n)
       then n \<notin> names_of (labels g) \<and> n \<in> names_of (scalars g) \<and> n \<notin> names_of (unsupported g)
       else n \<notin> names_of (labels g) \<and> n \<notin> names_of (scalars g) \<and> n \<in> names_of (unsupported g)) \<and>
      (labelTypes n = None \<and> fieldSchema n = None \<longrightarrow> n \<in> names_of (unsupported g)))"
  unfolding Let_def names_of_labels names_of_scalars names_of_unsupported
  using assms by (auto simp: array_includes_def)

text \<open>
  The example of the specification, run on the classifier.
\<close>

lemma classify_example:
  "classify [''Classification''] [''float''] [''tags'' \<mapsto> ''Classification'']
     [''confidence'' \<mapsto> ''float'', ''blob'' \<mapsto> ''UnknownType'']
     [''tags'', ''confidence'', ''blob''] =
   \<lparr>labels = [\<lparr>name = ''tags'', type = Some ''Classification''\<rparr>],
    scalars = [\<lparr>name = ''confidence'', type = None\<rparr>],
    unsupported = [\<lparr>name = ''blob'', type = None\<rparr>]\<rparr>"
  by (simp add: classify_def classify_name_def array_includes_def push_def)

theorem classify_rule_witness:
  "''blob'' \<in> set [''tags'', ''confidence'', ''blob''] \<and>
   ''blob'' \<in> names_of (unsupported
     (classify [''Classification''] [''float''] [''tags'' \<mapsto> ''Classification'']
        [''confidence'' \<mapsto> ''float'', ''blob'' \<mapsto> ''UnknownType'']
        [''tags'', ''confidence'', ''blob'']))"
  using classify_rule [of "''blob''" "[''tags'', ''confidence'', ''blob'']"
      "[''Classification'']" "[''float'']" "[''tags'' \<mapsto> ''Classification'']"
      "[''confidence'' \<mapsto> ''float'', ''blob'' \<mapsto> ''UnknownType'']"]
  by (simp add: array_includes_def Let_def)


theorem classify_partition_witness:
  "(let g = classify [''Classification''] [''float''] [''tags'' \<mapsto> ''Classification'']
        [''confidence'' \<mapsto> ''float'', ''blob'' \<mapsto> ''UnknownType'']
        [''tags'', ''confidence'', ''blob'', ''tags''] in
      names_of (labels g) \<inter> names_of (scalars g) = {} \<and>
      names_of (labels g) \<inter> names_of (unsupported g) = {} \<and>
      names_of (scalars g) \<inter> names_of (unsupported g) = {} \<and>
      names_of (labels g) \<union> names_of (scalars g) \<union> names_of (unsupported g) =
        {''tags'', ''confidence'', ''blob''} \<and>
      length (labels g) + length (scalars g) + length (unsupported g) = 4)"
  using classify_partition [of "[''Classification'']" "[''float'']"
      "[''tags'' \<mapsto> ''Classification'']"
      "[''confidence'' \<mapsto> ''float'', ''blob'' \<mapsto> ''UnknownType'']"
      "[''tags'', ''confidence'', ''blob'', ''tags'']"]
  by (simp add: Let_def insert_commute)

section \<open>Properties of the display options\<close>

text \<open>
  All elements have the same \<^verbatim>\<open>ToString\<close> image, so the stable default sort returns
  its input, and the display options come out in the order of \<^verbatim>\<open>values\<close>.
\<close>

lemma sort_default_id: "sort_default values = values"
  unfolding sort_default_def
  by (induction "values") (simp_all add: ToString_def insort_is_Cons)

lemma getDisplayOptions_keeps_order:
  "map name (getDisplayOptions values counts sel) = map name values"
  by (simp add: getDisplayOptions_def sort_default_id comp_def)

text \<open>
  Claim C3 says that the display options of a group are sorted ascending by \<open>name\<close>
  whatever the order of the input. On the entries named \<^verbatim>\<open>b\<close> and \<^verbatim>\<open>a\<close>, in this
  order, \<^verbatim>\<open>getDisplayOptions\<close> returns the options in the same order, which is not
  ascending.
\<close>

theorem getDisplayOptions_not_sorted:
  "map name (getDisplayOptions [\<lparr>name = ''b'', type = None\<rparr>, \<lparr>name = ''a'', type = None\<rparr>]
       Map.empty Map.empty) = [''b'', ''a''] \<and>
   \<not> sorted (map name (getDisplayOptions
       [\<lparr>name = ''b'', type = None\<rparr>, \<lparr>name = ''a'', type = None\<rparr>] Map.empty Map.empty))"
  by (simp add: getDisplayOptions_def sort_default_def ToString_def less_eq_char_def)

section \<open>Properties of the sidebar height\<close>

text \<open>
  Claim C4. With the element of the panel attached, \<^verbatim>\<open>updateSidebarHeight\<close> stores the
  viewport height minus the top offset of the panel, for every viewport height and top
  offset; viewport height 800 and top offset 100 give 700.
\<close>

theorem updateSidebarHeight_attached:
  "updateSidebarHeight w (Some el) h =
     Inr (Height (innerHeight w - rect_top (boundingClientRect el))) \<and>
   updateSidebarHeight \<lparr>innerHeight = 800 :: int\<rparr>
     (Some \<lparr>boundingClientRect = \<lparr>rect_top = 100\<rparr>\<rparr>) h' = Inr (Height 700)"
  by (simp add: updateSidebarHeight_def getBoundingClientRect_def)

theorem updateSidebarHeight_attached_witness:
  "updateSidebarHeight \<lparr>innerHeight = 1080 :: int\<rparr>
     (Some \<lparr>boundingClientRect = \<lparr>rect_top = 64\<rparr>\<rparr>) (Height 700) = Inr (Height 1016)"
  using updateSidebarHeight_attached
    [of "\<lparr>innerHeight = 1080 :: int\<rparr>" "\<lparr>boundingClientRect = \<lparr>rect_top = 64\<rparr>\<rparr>" "Height 700" Unset]
  by simp

text \<open>
  Claim C5. With no element attached, \<^verbatim>\<open>updateSidebarHeight\<close> raises no error and
  leaves the stored height as it was.
\<close>

theorem updateSidebarHeight_unattached:
  "updateSidebarHeight w None h = Inr h"
  by (simp add: updateSidebarHeight_def)

theorem updateSidebarHeight_unattached_witness:
  "updateSidebarHeight \<lparr>innerHeight = 800 :: int\<rparr> None Unset = Inr Unset \<and>
   updateSidebarHeight \<lparr>innerHeight = 800 :: int\<rparr> None (Height 700) = Inr (Height 700)"
  using updateSidebarHeight_unattached [of "\<lparr>innerHeight = 800 :: int\<rparr>" Unset]
    updateSidebarHeight_unattached [of "\<lparr>innerHeight = 800 :: int\<rparr>" "Height 700"]
  by simp

section \<open>Properties of the route component\<close>

text \<open>
  Claim C6. When the query response holds no dataset, the render pass publishes no
  state update and leaves the hook state alone, and its outcome is the
  \<^verbatim>\<open>NotFoundError\<close> of the current path, thrown to the caller; a run of render passes
  ends there with that error.
\<close>

theorem Dataset_not_found:
  "published (Dataset transformDataset pathname None nm hs) = [] \<and>
   hooks (Dataset transformDataset pathname None nm hs) = hs \<and>
   outcome (Dataset transformDataset pathname None nm hs) = Inl (NotFoundError pathname) \<and>
   render_passes transformDataset pathname ((None, nm) # rest) hs =
     ([], Inl (NotFoundError pathname))"
  by (simp add: Dataset_def)

theorem Dataset_not_found_witness:
  "render_passes (\<lambda>d. d + 1) ''/datasets/missing''
     [(None, Some ''missing''), (Some (Obj 1 (5::nat)), Some ''quickstart'')]
     \<lparr>effect_deps = None\<rparr> = ([], Inl (NotFoundError ''/datasets/missing''))"
  using Dataset_not_found [of "\<lambda>d. d + 1" "''/datasets/missing''" "Some ''missing''"
      "\<lparr>effect_deps = None\<rparr>" "[(Some (Obj 1 (5::nat)), Some ''quickstart'')]"]
  by simp

text \<open>
  A render pass with the dataset object of the previous one publishes nothing.
\<close>

lemma Dataset_same_again:
  "effect_deps hs = Some d \<Longrightarrow>
   published (Dataset T p (Some d) nm hs) = [] \<and> hooks (Dataset T p (Some d) nm hs) = hs"
  by (simp add: Dataset_def useEffect_def Object_is_def)

lemma Dataset_deps:
  "effect_deps (hooks (Dataset T p (Some d) nm hs)) = Some d"
  by (simp add: Dataset_def useEffect_def)

lemma Dataset_outcome:
  "\<exists>v. outcome (Dataset T p (Some d) nm hs) = Inr v"
  by (simp add: Dataset_def useEffect_def)

lemma Dataset_published_le:
  "length (published (Dataset T p (Some d) nm hs)) \<le> 1"
  by (simp add: Dataset_def useEffect_def)

lemma render_passes_same:
  "effect_deps hs = Some d \<Longrightarrow>
   render_passes T p (map (\<lambda>nm. (Some d, nm)) nms) hs = ([], Inr hs)"
proof (induction nms)
  case Nil
  then show ?case by simp
next
  case (Cons nm nms)
  obtain v where v: "outcome (Dataset T p (Some d) nm hs) = Inr v"
    using Dataset_outcome by blast
  from Cons show ?case
    by (simp add: Dataset_same_again v)
qed

lemma render_passes_one_description:
  "\<exists>us hs'. render_passes T p (map (\<lambda>nm. (Some d, nm)) nms) hs = (us, Inr hs') \<and> length us \<le> 1"
proof (cases nms)
  case Nil
  then show ?thesis by simp
next
  case (Cons nm rest)
  obtain v where v: "outcome (Dataset T p (Some d) nm hs) = Inr v"
    using Dataset_outcome by blast
  have "render_passes T p (map (\<lambda>nm. (Some d, nm)) rest) (hooks (Dataset T p (Some d) nm hs))
          = ([], Inr (hooks (Dataset T p (Some d) nm hs)))"
    by (rule render_passes_same) (rule Dataset_deps)
  with Cons v Dataset_published_le [of T p d nm hs] show ?thesis
    by (simp add: Let_def)
qed

text \<open>
  Claim C7. Render passes of the mounted component that all present the same dataset
  object, however many and whatever the dataset name in each, all complete and publish
  at most one state update between them; the second of two passes in a row with the same
  object publishes nothing.
\<close>

theorem publish_once:
  "(\<exists>us hs'. render_passes transformDataset pathname (map (\<lambda>nm. (Some d, nm)) nms) hs
               = (us, Inr hs') \<and> length us \<le> 1) \<and>
   published (Dataset transformDataset pathname (Some d) nm2
     (hooks (Dataset transformDataset pathname (Some d) nm1 hs))) = []"
  using render_passes_one_description [of transformDataset pathname d nms hs]
    Dataset_same_again [OF Dataset_deps, of transformDataset pathname d nm2 transformDataset pathname nm1 hs]
  by simp

theorem publish_once_witness:
  "render_passes (\<lambda>d. d + 1) ''/datasets/quickstart''
     [(Some (Obj 1 (5::nat)), None), (Some (Obj 1 5), Some ''quickstart''),
      (Some (Obj 1 5), Some ''quickstart'')] \<lparr>effect_deps = None\<rparr>
   = ([6], Inr \<lparr>effect_deps = Some (Obj 1 5)\<rparr>)"
  using publish_once [of "\<lambda>d. d + 1" "''/datasets/quickstart''" "Obj 1 (5::nat)"
      "[None, Some ''quickstart'', Some ''quickstart'']" "\<lparr>effect_deps = None\<rparr>"]
  by (simp add: Dataset_def useEffect_def Object_is_def falsy_def)

text \<open>
  The guard is the identity of the object: a pass that presents another object
  publishes again.
\<close>

lemma publish_again_for_new_object:
  "addr d' \<noteq> addr d \<Longrightarrow>
   published (Dataset T p (Some d') nm2 (hooks (Dataset T p (Some d) nm1 hs))) = [T (obj_fields d')]"
  by (simp add: Dataset_def useEffect_def Object_is_def)

section \<open>Properties of the lead form\<close>

text \<open>
  Claim C8. With an empty \<open>firstname\<close> the submit button is disabled, whatever the
  other fields hold; and the button is enabled only when \<open>firstname\<close>, \<open>lastname\<close> and
  \<open>email\<close> are all non-empty.
\<close>

theorem submit_disabled_rule:
  "(firstname (formState v) = [] \<longrightarrow> submit_disabled v) \<and>
   (\<not> submit_disabled v \<longrightarrow>
      firstname (formState v) \<noteq> [] \<and> lastname (formState v) \<noteq> [] \<and> email (formState v) \<noteq> [])"
  by (auto simp: submit_disabled_def)

theorem submit_disabled_rule_witness:
  "submit_disabled
     \<lparr>formState = \<lparr>email = ''a@b.c'', firstname = [], lastname = ''Doe'', company = ''X'',
        role = ''eng'', discover = ''web''\<rparr>,
      submitText = ''Submit'', teams = \<lparr>submitted = False\<rparr>, appTeamsIsOpen = True\<rparr> \<and>
   \<not> submit_disabled
     \<lparr>formState = \<lparr>email = ''a@b.c'', firstname = ''Jo'', lastname = ''Doe'', company = [],
        role = [], discover = []\<rparr>,
      submitText = ''Submit'', teams = \<lparr>submitted = False\<rparr>, appTeamsIsOpen = True\<rparr>"
  using submit_disabled_rule [of "\<lparr>formState = \<lparr>email = ''a@b.c'', firstname = [], lastname = ''Doe'', company = ''X'',
        role = ''eng'', discover = ''web''\<rparr>,
      submitText = ''Submit'', teams = \<lparr>submitted = False\<rparr>, appTeamsIsOpen = True\<rparr>"]
    submit_disabled_rule [of "\<lparr>formState = \<lparr>email = ''a@b.c'', firstname = ''Jo'', lastname = ''Doe'', company = [],
        role = [], discover = []\<rparr>,
      submitText = ''Submit'', teams = \<lparr>submitted = False\<rparr>, appTeamsIsOpen = True\<rparr>"]
  by (simp add: submit_disabled_def)

text \<open>
  When the request fails, \<^verbatim>\<open>submit\<close> ends in the \<^verbatim>\<open>.catch\<close> branch, which writes the
  label and nothing else.
\<close>

lemma submit_settle_failed:
  "failed r \<Longrightarrow> submit_settle r v = (v\<lparr>submitText := ''Something went wrong''\<rparr>, [])"
  by (simp add: failed_def submit_settle_def split: sum.splits)

lemma submit_failed:
  "failed r \<Longrightarrow>
   submit now r v = (v\<lparr>submitText := ''Something went wrong''\<rparr>, snd (submit_begin now v))"
  by (simp add: submit_def submit_begin_def submit_settle_failed)

lemma failed_cases:
  "failed r \<longleftrightarrow> r = Rejected \<or> (\<exists>st ok. r = Resolved st ok \<and> (st \<noteq> 200 \<or> \<not> ok))"
  by (cases r) (auto simp: failed_def first_then_def)

lemma marketing_posts_begin:
  "length (filter is_marketing_post (snd (submit_begin now v))) = 1 \<and>
   filter is_success_action (snd (submit_begin now v)) = []"
  by (simp add: submit_begin_def)

text \<open>
  Claim C9. When the marketing endpoint answers with a status other than 200, or the
  request ends in a network exception, \<^verbatim>\<open>submit\<close> leaves the failure string as the label
  of the button, has sent exactly one request to the endpoint (no retry), and has done
  none of the actions of the success path: the \<open>submitted\<close> flag is as before, the
  tracking endpoint is not notified and no close is scheduled.
\<close>

theorem submit_failure:
  assumes "r = Rejected \<or> (r = Resolved st ok \<and> st \<noteq> 200)"
  shows "submitText (fst (submit now r v)) = ''Something went wrong'' \<and>
         length (filter is_marketing_post (snd (submit now r v))) = 1 \<and>
         filter is_success_action (snd (submit now r v)) = [] \<and>
         submitted (teams (fst (submit now r v))) = submitted (teams v) \<and>
         appTeamsIsOpen (fst (submit now r v)) = appTeamsIsOpen v"
proof -
  from assms have "failed r"
    by (auto simp: failed_cases)
  then show ?thesis
    using marketing_posts_begin [of now v] by (simp add: submit_failed)
qed

theorem submit_failure_witness:
  "(Resolved 500 True = Rejected \<or> (Resolved 500 True = Resolved 500 True \<and> (500::nat) \<noteq> 200)) \<and>
   submit 1700000000000 (Resolved 500 True)
     \<lparr>formState = \<lparr>email = ''a@b.c'', firstname = ''Jo'', lastname = ''Doe'', company = [],
        role = [], discover = []\<rparr>,
      submitText = ''Submit'', teams = \<lparr>submitted = False\<rparr>, appTeamsIsOpen = True\<rparr> =
   (\<lparr>formState = \<lparr>email = ''a@b.c'', firstname = ''Jo'', lastname = ''Doe'', company = [],
        role = [], discover = []\<rparr>,
      submitText = ''Something went wrong'', teams = \<lparr>submitted = False\<rparr>,
      appTeamsIsOpen = True\<rparr>,
    [Fetch postUrl ''post''
       \<lparr>submittedAt = 1700000000000,
        body_fields = [(''firstname'', ''Jo''), (''lastname'', ''Doe''), (''email'', ''a@b.c''),
          (''company'', []), (''role'', []), (''app_how_did_you_hear_about_us'', [])],
        pageName = ''FiftyOne App''\<rparr>])"
  using submit_failure [of "Resolved 500 True" 500 True 1700000000000
      "\<lparr>formState = \<lparr>email = ''a@b.c'', firstname = ''Jo'', lastname = ''Doe'', company = [],
        role = [], discover = []\<rparr>,
      submitText = ''Submit'', teams = \<lparr>submitted = False\<rparr>, appTeamsIsOpen = True\<rparr>"]
  by (simp add: submit_def submit_begin_def submit_settle_def first_then_def)

text \<open>
  Claim C10. On a failed submission the state after \<^verbatim>\<open>submit\<close> is the state before
  with the label of the button replaced: the shared \<open>teams\<close> atom with its \<open>submitted\<close>
  flag, the open flag of the form and the six form fields are unchanged. The same holds
  of the \<^verbatim>\<open>.catch\<close> branch taken alone.
\<close>

theorem submit_failure_frame:
  assumes "failed r"
  shows "fst (submit now r v) = v\<lparr>submitText := ''Something went wrong''\<rparr> \<and>
         fst (submit_settle r v) = v\<lparr>submitText := ''Something went wrong''\<rparr> \<and>
         teams (fst (submit now r v)) = teams v \<and>
         appTeamsIsOpen (fst (submit now r v)) = appTeamsIsOpen v \<and>
         formState (fst (submit now r v)) = formState v"
  using assms by (simp add: submit_failed submit_settle_failed)

theorem submit_failure_frame_witness:
  "failed Rejected \<and>
   fst (submit 1700000000000 Rejected
     \<lparr>formState = \<lparr>email = ''a@b.c'', firstname = ''Jo'', lastname = ''Doe'', company = ''X'',
        role = ''eng'', discover = ''web''\<rparr>,
      submitText = ''Submit'', teams = \<lparr>submitted = False\<rparr>, appTeamsIsOpen = True\<rparr>) =
   \<lparr>formState = \<lparr>email = ''a@b.c'', firstname = ''Jo'', lastname = ''Doe'', company = ''X'',
        role = ''eng'', discover = ''web''\<rparr>,
      submitText = ''Something went wrong'', teams = \<lparr>submitted = False\<rparr>,
      appTeamsIsOpen = True\<rparr>"
proof -
  have h: "failed Rejected"
    by (simp add: failed_def first_then_def)
  show ?thesis
    using h submit_failure_frame [OF h, of 1700000000000
      "\<lparr>formState = \<lparr>email = ''a@b.c'', firstname = ''Jo'', lastname = ''Doe'', company = ''X'',
        role = ''eng'', discover = ''web''\<rparr>,
      submitText = ''Submit'', teams = \<lparr>submitted = False\<rparr>, appTeamsIsOpen = True\<rparr>"]
    by simp
qed

text \<open>
  For comparison, the success path.
\<close>

lemma submit_success:
  "submit now (Resolved 200 True) v =
     (v\<lparr>submitText := ''Submitted. Thank you!'', teams := (teams v)\<lparr>submitted := True\<rparr>\<rparr>,
      snd (submit_begin now v) @
      [FetchFunction ''POST'' ''/teams?submitted=true'', SetTimeout (SetOpen False) 2000])"
  by (simp add: submit_def submit_begin_def submit_settle_def first_then_def)

end
